theory Spec2Isabelle
  imports Main
begin

section \<open>Data model of the Athena driver's connector (connector.go)\<close>

text \<open>
  Errors are values. \<open>ErrAthenaNilAPI\<close> is the driver's own named error; \<open>SyntaxError\<close> is
  what \<open>strconv.ParseBool\<close> reports; \<open>ExternalError\<close> stands for any error produced by the
  AWS SDK (configuration loading, remote calls), identified by a number.
\<close>

datatype error = ErrAthenaNilAPI | SyntaxError string | ExternalError nat

text \<open>
  Modelled from the spec: the \<open>Config\<close> struct and its accessors are declared outside the
  given sources. Each accessor yields a plain string, absence being the empty string.
\<close>

record Config =
  GetRegion :: string
  GetAWSProfile :: string
  GetAccessID :: string
  GetSecretAccessKey :: string
  GetSessionToken :: string

text \<open>Opaque collaborators: a metrics scope, a logger, a loaded SDK configuration.\<close>

datatype tally_scope = TallyScope nat
datatype zap_logger = ZapLogger nat
datatype aws_Config = AwsConfig nat

definition zero_aws_Config :: aws_Config where
  \<comment> \<open>the zero value of \<open>var awsConfig aws.Config\<close>\<close>
  "zero_aws_Config = AwsConfig 0"

text \<open>
  Modelled from the spec: \<open>DriverTracer\<close>, \<open>SetScope\<close> and \<open>SetLogger\<close> are declared outside
  the given sources. The tracer holds a metrics scope and a logger; the setters override them.
\<close>

record DriverTracer =
  Scope :: tally_scope
  Logger :: zap_logger

definition SetScope :: "DriverTracer \<Rightarrow> tally_scope \<Rightarrow> DriverTracer" where
  "SetScope t metrics = t\<lparr>Scope := metrics\<rparr>"

definition SetLogger :: "DriverTracer \<Rightarrow> zap_logger \<Rightarrow> DriverTracer" where
  "SetLogger t logger = t\<lparr>Logger := logger\<rparr>"

record SQLConnector =
  config :: Config
  tracer :: DriverTracer

text \<open>
  A \<open>*athena.Client\<close> is a pointer: nil, or the address of a client allocated by
  \<open>athena.NewFromConfig\<close>.
\<close>

datatype client_ptr = NilClient | ClientAt nat

record Connection =
  athenaAPI :: client_ptr
  connector :: SQLConnector

text \<open>
  The ambient context: \<open>ctx.Value(key)\<close> finds the innermost binding of the key, a value
  of dynamic type. The two type assertions of \<open>Connect\<close> succeed exactly on a scope and on
  a logger.
\<close>

datatype ctx_key = MetricsKey | LoggerKey | OtherKey string
datatype ctx_val = ScopeVal tally_scope | LoggerVal zap_logger | OtherVal string

type_synonym go_context = "(ctx_key \<times> ctx_val) list"

definition ctx_Value :: "go_context \<Rightarrow> ctx_key \<Rightarrow> ctx_val option" where
  "ctx_Value ctx k = map_of ctx k"

definition context_TODO :: go_context where
  "context_TODO = []"

text \<open>The options passed to \<open>config.LoadDefaultConfig\<close>.\<close>

datatype credentials_provider = StaticCredentialsProvider string string string

datatype load_option =
    WithSharedConfigProfile string
  | WithRegion string
  | WithCredentialsProvider credentials_provider

text \<open>
  The process-wide state: the map \<open>clients\<close> and the clients allocated so far (the address
  of a client is its index in \<open>heap\<close>, which records the configuration it was built from).
\<close>

record world =
  clients :: "string \<rightharpoonup> client_ptr"
  heap :: "aws_Config list"

definition empty_world :: world where
  "empty_world = \<lparr>clients = Map.empty, heap = []\<rparr>"

definition NewFromConfig :: "aws_Config \<Rightarrow> world \<Rightarrow> client_ptr \<times> world" where
  \<comment> \<open>\<open>athena.NewFromConfig\<close> allocates a client and returns its (non-nil) address\<close>
  "NewFromConfig cfg w = (ClientAt (length (heap w)), w\<lparr>heap := heap w @ [cfg]\<rparr>)"

text \<open>
  What one call of \<open>Connect\<close> does to the outside, in program order: operations on
  \<open>clientMutext\<close>, the lookup in and the store into \<open>clients\<close>, the call of
  \<open>config.LoadDefaultConfig\<close> with its options and its two results, the construction of a
  client, and the metrics emitted on the tracer's scope.
\<close>

datatype event =
    RLock | RUnlock | Lock | Unlock
  | MapLookup string "client_ptr option"
  | Load "load_option list" aws_Config "error option"
  | NewClient aws_Config client_ptr
  | MapStore string client_ptr
  | CounterInc tally_scope string int
  | TimerRecord tally_scope string int

text \<open>
  The collaborators of \<open>Connect\<close> that live outside the given sources: the constant
  \<open>DriverName\<close>, the constructor \<open>NewDefaultObservability\<close>, the SDK's
  \<open>config.LoadDefaultConfig\<close> (its result for each list of options), the process
  environment, and the clock (the reading of \<open>time.Now()\<close> and the later reading taken by
  \<open>time.Since\<close>).
\<close>

record extern =
  DriverName :: string
  NewDefaultObservability :: "Config \<Rightarrow> DriverTracer"
  LoadDefaultConfig :: "load_option list \<Rightarrow> aws_Config \<times> error option"
  environ :: "string \<rightharpoonup> string"
  clock_start :: int
  clock_end :: int

definition Getenv :: "(string \<rightharpoonup> string) \<Rightarrow> string \<Rightarrow> string" where
  \<comment> \<open>\<open>os.Getenv\<close>: the value, or the empty string when the variable is unset\<close>
  "Getenv env k = (case env k of None \<Rightarrow> [] | Some v \<Rightarrow> v)"

definition ParseBool :: "string \<Rightarrow> bool \<times> error option" where
  \<comment> \<open>\<open>strconv.ParseBool\<close> of the Go standard library\<close>
  "ParseBool str =
     (if str \<in> set [''1'', ''t'', ''T'', ''true'', ''TRUE'', ''True''] then (True, None)
      else if str \<in> set [''0'', ''f'', ''F'', ''false'', ''FALSE'', ''False''] then (False, None)
      else (False, Some (SyntaxError str)))"

section \<open>Connect\<close>

text \<open>
  \<open>Connect\<close> is one Go function of three consecutive blocks, each a definition here.
  The first block (lines 75 to 81 of connector.go) overwrites the connector's tracer with a
  new default one and applies the overrides carried by the context.
\<close>

definition install_tracer :: "extern \<Rightarrow> SQLConnector \<Rightarrow> go_context \<Rightarrow> SQLConnector" where
  "install_tracer x c0 ctx =
    (let c = c0\<lparr>tracer := NewDefaultObservability x (config c0)\<rparr>;
         c = (case ctx_Value ctx MetricsKey of
                Some (ScopeVal metrics) \<Rightarrow> c\<lparr>tracer := SetScope (tracer c) metrics\<rparr>
              | _ \<Rightarrow> c);
         c = (case ctx_Value ctx LoggerKey of
                Some (LoggerVal logger) \<Rightarrow> c\<lparr>tracer := SetLogger (tracer c) logger\<rparr>
              | _ \<Rightarrow> c)
     in c)"

text \<open>
  The second block (lines 83 to 129) is the three-way branch. It computes the local
  variables \<open>err\<close>, \<open>awsConfig\<close>, \<open>athenaClient\<close> and \<open>cacheKey\<close>, returned as a
  tuple together with the events of the block. In each branch the read lock is taken, the
  key is looked up and the read lock is released on both outcomes; only when the key is
  absent is \<open>config.LoadDefaultConfig\<close> called.
\<close>

definition resolve_client ::
  "extern \<Rightarrow> SQLConnector \<Rightarrow> world \<Rightarrow> error option \<times> aws_Config \<times> client_ptr \<times> string \<times> event list" where
  "resolve_client x c w0 =
    (if fst (ParseBool (Getenv (environ x) ''AWS_SDK_LOAD_CONFIG'')) then
       (let profile = GetAWSProfile (config c);
            cacheKey = ''#'' @ profile @ ''#''
        in case clients w0 cacheKey of
             Some client \<Rightarrow>
               (None, zero_aws_Config, client, cacheKey,
                [RLock, MapLookup cacheKey (Some client), RUnlock])
           | None \<Rightarrow>
               (if profile \<noteq> [] then
                  (let opts = [WithSharedConfigProfile profile];
                       (awsConfig, err) = LoadDefaultConfig x opts
                   in (err, awsConfig, NilClient, cacheKey,
                       [RLock, MapLookup cacheKey None, RUnlock, Load opts awsConfig err]))
                else
                  (let opts = [];
                       (awsConfig, err) = LoadDefaultConfig x opts
                   in (err, awsConfig, NilClient, cacheKey,
                       [RLock, MapLookup cacheKey None, RUnlock, Load opts awsConfig err]))))
     else if GetAccessID (config c) \<noteq> [] then
       (let cacheKey = GetRegion (config c) @ ''##'' @ GetAccessID (config c)
        in case clients w0 cacheKey of
             Some client \<Rightarrow>
               (None, zero_aws_Config, client, cacheKey,
                [RLock, MapLookup cacheKey (Some client), RUnlock])
           | None \<Rightarrow>
               (let opts = [WithRegion (GetRegion (config c)),
                            WithCredentialsProvider (StaticCredentialsProvider
                              (GetAccessID (config c)) (GetSecretAccessKey (config c))
                              (GetSessionToken (config c)))];
                    (awsConfig, err) = LoadDefaultConfig x opts
                in (err, awsConfig, NilClient, cacheKey,
                    [RLock, MapLookup cacheKey None, RUnlock, Load opts awsConfig err])))
     else
       (let cacheKey = GetRegion (config c) @ ''##''
        in case clients w0 cacheKey of
             Some client \<Rightarrow>
               (None, zero_aws_Config, client, cacheKey,
                [RLock, MapLookup cacheKey (Some client), RUnlock])
           | None \<Rightarrow>
               (let opts = [WithRegion (GetRegion (config c))];
                    (awsConfig, err) = LoadDefaultConfig x opts
                in (err, awsConfig, NilClient, cacheKey,
                    [RLock, MapLookup cacheKey None, RUnlock, Load opts awsConfig err]))))"

text \<open>
  The third block (lines 130 to 147): on an error the failure counter is incremented and
  (nil, err) is returned; otherwise a nil \<open>athenaClient\<close> is replaced, under the write
  lock, by a client built from \<open>awsConfig\<close> and stored under \<open>cacheKey\<close>; then the
  connection is built and the timer recorded. The time read by \<open>time.Now()\<close> on entry
  is \<open>clock_start\<close>, and \<open>time.Since\<close> is the later reading minus it.
\<close>

definition complete ::
  "extern \<Rightarrow> SQLConnector \<Rightarrow> world \<Rightarrow> error option \<times> aws_Config \<times> client_ptr \<times> string \<times> event list \<Rightarrow>
     (Connection option \<times> error option) \<times> SQLConnector \<times> world \<times> event list" where
  "complete x c w0 locals =
    (case locals of (err, awsConfig, athenaClient, cacheKey, tr) \<Rightarrow>
       if err \<noteq> None then
         ((None, err), c, w0,
          tr @ [CounterInc (Scope (tracer c)) (DriverName x @ ''.failure.sqlconnector.newsession'') 1])
       else
         (let (athenaClient, w, tr) =
                (if athenaClient = NilClient then
                   (let (p, w) = NewFromConfig awsConfig w0
                    in (p, w\<lparr>clients := (clients w)(cacheKey \<mapsto> p)\<rparr>,
                        tr @ [Lock, NewClient awsConfig p, MapStore cacheKey p, Unlock]))
                 else (athenaClient, w0, tr));
              timeConnect = clock_end x - clock_start x;
              conn = \<lparr>athenaAPI = athenaClient, connector = c\<rparr>
          in ((Some conn, None), c, w,
              tr @ [TimerRecord (Scope (tracer c)) (DriverName x @ ''.connector.connect'') timeConnect])))"

text \<open>
  \<open>Connect\<close> returns Go's pair (connection, error), the connector as it leaves it, the
  process-wide state, and the events of this call.
\<close>

definition Connect ::
  "extern \<Rightarrow> SQLConnector \<Rightarrow> go_context \<Rightarrow> world \<Rightarrow>
     (Connection option \<times> error option) \<times> SQLConnector \<times> world \<times> event list" where
  "Connect x c0 ctx w0 =
    (let c = install_tracer x c0 ctx
     in complete x c w0 (resolve_client x c w0))"

text \<open>The value of the local variable \<open>cacheKey\<close> of a call: the Cache Key it resolves.\<close>

definition cacheKey_of :: "extern \<Rightarrow> SQLConnector \<Rightarrow> world \<Rightarrow> string" where
  "cacheKey_of x c w0 =
     (case resolve_client x c w0 of (err, awsConfig, athenaClient, cacheKey, tr) \<Rightarrow> cacheKey)"

text \<open>A sequence of calls of \<open>Connect\<close>, one after the other, on the shared state.\<close>

fun connect_all :: "(extern \<times> SQLConnector \<times> go_context) list \<Rightarrow> world \<Rightarrow> world \<times> event list" where
  "connect_all [] w = (w, [])"
| "connect_all ((x, c, ctx) # cs) w =
     (case Connect x c ctx w of
        (r, c', w', tr) \<Rightarrow> (case connect_all cs w' of (w'', tr') \<Rightarrow> (w'', tr @ tr')))"

subsection \<open>Observations on the events of a call\<close>

definition lookups :: "event list \<Rightarrow> (string \<times> client_ptr option) list" where
  "lookups tr = concat (map (\<lambda>e. case e of MapLookup k r \<Rightarrow> [(k, r)] | _ \<Rightarrow> []) tr)"

definition loads :: "event list \<Rightarrow> (load_option list \<times> aws_Config \<times> error option) list" where
  "loads tr = concat (map (\<lambda>e. case e of Load opts cfg err \<Rightarrow> [(opts, cfg, err)] | _ \<Rightarrow> []) tr)"

definition constructions :: "event list \<Rightarrow> (aws_Config \<times> client_ptr) list" where
  "constructions tr = concat (map (\<lambda>e. case e of NewClient cfg p \<Rightarrow> [(cfg, p)] | _ \<Rightarrow> []) tr)"

definition counters :: "event list \<Rightarrow> (tally_scope \<times> string \<times> int) list" where
  "counters tr = concat (map (\<lambda>e. case e of CounterInc sc n d \<Rightarrow> [(sc, n, d)] | _ \<Rightarrow> []) tr)"

text \<open>
  The locks this call holds: the number of read locks and whether the write lock is held.
  \<open>held_at\<close> pairs every event with the locks held when it happens.
\<close>

fun lock_step :: "nat \<times> bool \<Rightarrow> event \<Rightarrow> nat \<times> bool" where
  "lock_step (r, wr) RLock = (Suc r, wr)"
| "lock_step (r, wr) RUnlock = (r - 1, wr)"
| "lock_step (r, wr) Lock = (r, True)"
| "lock_step (r, wr) Unlock = (r, False)"
| "lock_step (r, wr) e = (r, wr)"

fun held_at :: "nat \<times> bool \<Rightarrow> event list \<Rightarrow> ((nat \<times> bool) \<times> event) list" where
  "held_at l [] = []"
| "held_at l (e # es) = (l, e) # held_at (lock_step l e) es"

definition no_lock :: "nat \<times> bool" where
  "no_lock = (0, False)"

definition read_lock :: "nat \<times> bool" where
  "read_lock = (1, False)"

definition write_lock :: "nat \<times> bool" where
  "write_lock = (0, True)"

section \<open>Workgroups (wg.go)\<close>

text \<open>
  Opaque values of the SDK: a workgroup configuration, a tag (key, value), the remote
  workgroup descriptor. \<open>WGTags\<close> is the driver's tag set, declared outside the given
  sources.
\<close>

datatype WorkGroupConfiguration = WorkGroupConfiguration nat
datatype Tag = Tag string string
datatype WorkGroup = WorkGroup nat
datatype WGTags = WGTags nat

record Workgroup =
  Name :: string
  Config :: "WorkGroupConfiguration option"
  Tags :: "WGTags option"

record CreateWorkGroupInput =
  Configuration :: "WorkGroupConfiguration option"
  Name_in :: "string option"
  Tags_in :: "Tag list option"

record GetWorkGroupInput =
  WorkGroup_in :: "string option"

record GetWorkGroupOutput =
  WorkGroup_out :: "WorkGroup option"

definition aws_String :: "string \<Rightarrow> string option" where
  \<comment> \<open>\<open>aws.String\<close>: a pointer to a copy of the string\<close>
  "aws_String v = Some v"

text \<open>
  The collaborators of wg.go outside the given sources. \<open>WGTags_Get\<close> is the method
  \<open>Get\<close> of the tag set, called on a pointer that may be nil; its result is \<open>None\<close> when the
  call panics. \<open>CreateWorkGroup\<close> and \<open>GetWorkGroup\<close> are the remote calls of the SDK on the
  client at an address: the first yields the error of the call (its output is discarded by
  the caller), the second either an error or an output.
\<close>

record wg_extern =
  WGTags_Get :: "WGTags option \<Rightarrow> Tag list option"
  NewWGTags :: "WGTags option"
  GetDefaultWGConfig :: "WorkGroupConfiguration option"
  CreateWorkGroup :: "nat \<Rightarrow> go_context \<Rightarrow> CreateWorkGroupInput \<Rightarrow> error option"
  GetWorkGroup :: "nat \<Rightarrow> go_context \<Rightarrow> GetWorkGroupInput \<Rightarrow> error + GetWorkGroupOutput"

datatype remote_call =
    CreateWorkGroupCall nat go_context CreateWorkGroupInput
  | GetWorkGroupCall nat go_context GetWorkGroupInput

datatype 'a outcome = Panic | Return 'a

definition NewDefaultWG ::
  "wg_extern \<Rightarrow> string \<Rightarrow> WorkGroupConfiguration option \<Rightarrow> WGTags option \<Rightarrow> Workgroup" where
  "NewDefaultWG x name wgconfig tags =
     (let wg = \<lparr>Name = name, Config = wgconfig, Tags = None\<rparr>;
          wg = (if wgconfig = None then wg\<lparr>Config := GetDefaultWGConfig x\<rparr> else wg);
          wg = (if tags \<noteq> None then wg\<lparr>Tags := tags\<rparr> else wg\<lparr>Tags := NewWGTags x\<rparr>)
      in wg)"

definition NewWG :: "string \<Rightarrow> WorkGroupConfiguration option \<Rightarrow> WGTags option \<Rightarrow> Workgroup" where
  "NewWG name wgconfig tags = \<lparr>Name = name, Config = wgconfig, Tags = tags\<rparr>"

text \<open>\<open>getWG\<close> returns Go's pair (workgroup, error) and the remote calls it made.\<close>

definition getWG ::
  "wg_extern \<Rightarrow> go_context \<Rightarrow> client_ptr \<Rightarrow> string \<Rightarrow>
     (WorkGroup option \<times> error option) \<times> remote_call list" where
  "getWG x ctx athenaService name =
     (case athenaService of
        NilClient \<Rightarrow> ((None, Some ErrAthenaNilAPI), [])
      | ClientAt a \<Rightarrow>
          (let input = \<lparr>WorkGroup_in = aws_String name\<rparr>
           in case GetWorkGroup x a ctx input of
                Inl err \<Rightarrow> ((None, Some err), [GetWorkGroupCall a ctx input])
              | Inr getWorkGroupOutput \<Rightarrow>
                  ((WorkGroup_out getWorkGroupOutput, None), [GetWorkGroupCall a ctx input])))"

text \<open>
  \<open>CreateWGRemotely\<close> returns the error of the remote call, or panics: when \<open>Get\<close> does, and
  when the SDK's method is called on a nil client.
\<close>

definition CreateWGRemotely ::
  "wg_extern \<Rightarrow> Workgroup \<Rightarrow> client_ptr \<Rightarrow> error option outcome \<times> remote_call list" where
  "CreateWGRemotely x w athenaService =
     (case WGTags_Get x (Tags w) of
        None \<Rightarrow> (Panic, [])
      | Some tags \<Rightarrow>
          (if length tags = 0 then
             (let input = \<lparr>Configuration = Config w, Name_in = aws_String (Name w), Tags_in = None\<rparr>
              in case athenaService of
                   NilClient \<Rightarrow> (Panic, [])
                 | ClientAt a \<Rightarrow>
                     (Return (CreateWorkGroup x a context_TODO input),
                      [CreateWorkGroupCall a context_TODO input]))
           else
             (case WGTags_Get x (Tags w) of
                None \<Rightarrow> (Panic, [])
              | Some tags2 \<Rightarrow>
                  (let input = \<lparr>Configuration = Config w, Name_in = aws_String (Name w),
                                 Tags_in = Some tags2\<rparr>
                   in case athenaService of
                        NilClient \<Rightarrow> (Panic, [])
                      | ClientAt a \<Rightarrow>
                          (Return (CreateWorkGroup x a context_TODO input),
                           [CreateWorkGroupCall a context_TODO input])))))"

section \<open>The specification's reading of the resolution\<close>

text \<open>
  These definitions follow the words of the specification, to be compared with the code:
  the flag is enabled when the environment variable parses as a true boolean, unset and
  unparsable values counting as false; the strategies are tried in a fixed order; each has
  its Cache Key and its way of loading the external configuration.
\<close>

datatype strategy = EnvDelegated | StaticCredentials | RegionOnly

definition flag_enabled :: "(string \<rightharpoonup> string) \<Rightarrow> bool" where
  "flag_enabled env =
     (case env ''AWS_SDK_LOAD_CONFIG'' of
        None \<Rightarrow> False
      | Some v \<Rightarrow> (case ParseBool v of (b, None) \<Rightarrow> b | (b, Some e) \<Rightarrow> False))"

definition spec_strategy :: "(string \<rightharpoonup> string) \<Rightarrow> Config \<Rightarrow> strategy" where
  "spec_strategy env cfg =
     (if flag_enabled env then EnvDelegated
      else if GetAccessID cfg \<noteq> [] then StaticCredentials
      else RegionOnly)"

definition spec_cache_key :: "(string \<rightharpoonup> string) \<Rightarrow> Config \<Rightarrow> string" where
  "spec_cache_key env cfg =
     (case spec_strategy env cfg of
        EnvDelegated \<Rightarrow> ''#'' @ GetAWSProfile cfg @ ''#''
      | StaticCredentials \<Rightarrow> GetRegion cfg @ ''##'' @ GetAccessID cfg
      | RegionOnly \<Rightarrow> GetRegion cfg @ ''##'')"

definition spec_load_options :: "(string \<rightharpoonup> string) \<Rightarrow> Config \<Rightarrow> load_option list" where
  "spec_load_options env cfg =
     (case spec_strategy env cfg of
        EnvDelegated \<Rightarrow>
          (if GetAWSProfile cfg \<noteq> [] then [WithSharedConfigProfile (GetAWSProfile cfg)] else [])
      | StaticCredentials \<Rightarrow>
          [WithRegion (GetRegion cfg),
           WithCredentialsProvider (StaticCredentialsProvider
             (GetAccessID cfg) (GetSecretAccessKey cfg) (GetSessionToken cfg))]
      | RegionOnly \<Rightarrow> [WithRegion (GetRegion cfg)])"

text \<open>
  The tracer a call installs, in the specification's words: a new default one, then the
  metrics scope and the logger found in the context, if any.
\<close>

definition spec_tracer :: "extern \<Rightarrow> Config \<Rightarrow> go_context \<Rightarrow> DriverTracer" where
  "spec_tracer x cfg ctx =
     (let t = NewDefaultObservability x cfg;
          t = (case ctx_Value ctx MetricsKey of Some (ScopeVal metrics) \<Rightarrow> t\<lparr>Scope := metrics\<rparr> | _ \<Rightarrow> t);
          t = (case ctx_Value ctx LoggerKey of Some (LoggerVal logger) \<Rightarrow> t\<lparr>Logger := logger\<rparr> | _ \<Rightarrow> t)
      in t)"

text \<open>
  The invariant of the Client Cache, relative to the events so far: every entry is the
  address of an allocated client, built from a configuration that was loaded without error.
\<close>

definition cache_ok :: "world \<Rightarrow> event list \<Rightarrow> bool" where
  "cache_ok w tr =
     (\<forall>k p. clients w k = Some p \<longrightarrow>
        (\<exists>a opts. p = ClientAt a \<and> a < length (heap w) \<and>
           Load opts (heap w ! a) None \<in> set tr \<and> NewClient (heap w ! a) p \<in> set tr))"

section \<open>Concrete inputs\<close>

definition ex_tracer :: DriverTracer where
  "ex_tracer = \<lparr>Scope = TallyScope 0, Logger = ZapLogger 0\<rparr>"

definition ex_config :: Config where
  "ex_config = \<lparr>GetRegion = ''us-east-1'', GetAWSProfile = [], GetAccessID = [],
                 GetSecretAccessKey = [], GetSessionToken = []\<rparr>"

definition ex_connector :: SQLConnector where
  "ex_connector = \<lparr>config = ex_config, tracer = ex_tracer\<rparr>"

definition ex_extern :: extern where
  \<comment> \<open>the flag is unset and every configuration loads\<close>
  "ex_extern = \<lparr>DriverName = ''awsathena'', NewDefaultObservability = (\<lambda>cfg. ex_tracer),
                 LoadDefaultConfig = (\<lambda>opts. (AwsConfig 7, None)), environ = Map.empty,
                 clock_start = 100, clock_end = 130\<rparr>"

definition ex_extern_failing :: extern where
  \<comment> \<open>the flag is unset and no configuration loads\<close>
  "ex_extern_failing = ex_extern\<lparr>LoadDefaultConfig := (\<lambda>opts. (zero_aws_Config, Some (ExternalError 1)))\<rparr>"

definition ex_wg_extern :: wg_extern where
  "ex_wg_extern = \<lparr>WGTags_Get = (\<lambda>t. case t of None \<Rightarrow> None
                                      | Some (WGTags n) \<Rightarrow> Some (replicate n (Tag ''team'' ''data''))),
                    NewWGTags = Some (WGTags 0),
                    GetDefaultWGConfig = Some (WorkGroupConfiguration 0),
                    CreateWorkGroup = (\<lambda>a ctx input. if Tags_in input = None then None
                                                       else Some (ExternalError 2)),
                    GetWorkGroup = (\<lambda>a ctx input. if WorkGroup_in input = Some ''primary''
                                                    then Inr \<lparr>WorkGroup_out = Some (WorkGroup 1)\<rparr>
                                                    else Inl (ExternalError 3))\<rparr>"

definition ex_extern_flag :: extern where
  \<comment> \<open>the flag is set to \<open>true\<close>\<close>
  "ex_extern_flag = ex_extern\<lparr>environ := [''AWS_SDK_LOAD_CONFIG'' \<mapsto> ''true'']\<rparr>"

definition ex_static :: "string \<Rightarrow> string \<Rightarrow> string \<Rightarrow> SQLConnector" where
  \<comment> \<open>a connector with static credentials: region, access id, secret access key\<close>
  "ex_static r a s =
     \<lparr>config = \<lparr>GetRegion = r, GetAWSProfile = [], GetAccessID = a,
                 GetSecretAccessKey = s, GetSessionToken = []\<rparr>,
      tracer = ex_tracer\<rparr>"

definition ex_profile :: "string \<Rightarrow> SQLConnector" where
  \<comment> \<open>a connector with a profile name\<close>
  "ex_profile p = \<lparr>config = ex_config\<lparr>GetAWSProfile := p\<rparr>, tracer = ex_tracer\<rparr>"

definition ex_calls :: "(extern \<times> SQLConnector \<times> go_context) list" where
  \<comment> \<open>a call that loads, a call whose loading fails, and the first call again\<close>
  "ex_calls = [(ex_extern, ex_connector, []),
               (ex_extern_failing, ex_static ''us-west-2'' ''AKIA'' ''one'', []),
               (ex_extern, ex_connector, [])]"

definition ex_world :: world where
  \<comment> \<open>the cache after one successful call for region \<open>us-east-1\<close>\<close>
  "ex_world = \<lparr>clients = [''us-east-1##'' \<mapsto> ClientAt 0], heap = [AwsConfig 7]\<rparr>"

definition ex_workgroup :: "nat \<Rightarrow> Workgroup" where
  \<comment> \<open>a workgroup whose tag set has the given number of tags\<close>
  "ex_workgroup n = NewWG ''analytics'' (Some (WorkGroupConfiguration 1)) (Some (WGTags n))"

section \<open>Lemmas relating the code to the specification's definitions\<close>

lemma ParseBool_Getenv: "fst (ParseBool (Getenv env ''AWS_SDK_LOAD_CONFIG'')) = flag_enabled env"
  by (simp add: ParseBool_def Getenv_def flag_enabled_def split: option.splits)

lemma install_tracer_eq: "install_tracer x c ctx = c\<lparr>tracer := spec_tracer x (config c) ctx\<rparr>"
  by (simp add: install_tracer_def spec_tracer_def SetScope_def SetLogger_def Let_def
           split: option.splits ctx_val.splits)

lemma resolve_client_eq:
  "resolve_client x c w =
     (let key = spec_cache_key (environ x) (config c);
          opts = spec_load_options (environ x) (config c)
      in case clients w key of
           Some client \<Rightarrow>
             (None, zero_aws_Config, client, key, [RLock, MapLookup key (Some client), RUnlock])
         | None \<Rightarrow>
             (snd (LoadDefaultConfig x opts), fst (LoadDefaultConfig x opts), NilClient, key,
              [RLock, MapLookup key None, RUnlock,
               Load opts (fst (LoadDefaultConfig x opts)) (snd (LoadDefaultConfig x opts))]))"
  by (simp add: resolve_client_def ParseBool_Getenv spec_cache_key_def spec_load_options_def
        spec_strategy_def Let_def split_beta split: option.splits)

text \<open>
  The four ways a call of \<open>Connect\<close> can go: the key is present with a client, present
  with nil, absent and the loading fails, absent and the loading succeeds.
\<close>

lemma Connect_hit:
  assumes "clients w (spec_cache_key (environ x) (config c)) = Some (ClientAt a)"
  shows "Connect x c ctx w =
    ((Some \<lparr>athenaAPI = ClientAt a, connector = c\<lparr>tracer := spec_tracer x (config c) ctx\<rparr>\<rparr>, None),
     c\<lparr>tracer := spec_tracer x (config c) ctx\<rparr>, w,
     [RLock, MapLookup (spec_cache_key (environ x) (config c)) (Some (ClientAt a)), RUnlock,
      TimerRecord (Scope (spec_tracer x (config c) ctx)) (DriverName x @ ''.connector.connect'')
        (clock_end x - clock_start x)])"
  using assms
  by (simp add: Connect_def install_tracer_eq resolve_client_eq complete_def Let_def)

lemma Connect_nil_entry:
  assumes "clients w (spec_cache_key (environ x) (config c)) = Some NilClient"
  shows "Connect x c ctx w =
    ((Some \<lparr>athenaAPI = ClientAt (length (heap w)),
            connector = c\<lparr>tracer := spec_tracer x (config c) ctx\<rparr>\<rparr>, None),
     c\<lparr>tracer := spec_tracer x (config c) ctx\<rparr>,
     w\<lparr>heap := heap w @ [zero_aws_Config],
       clients := (clients w)(spec_cache_key (environ x) (config c) \<mapsto> ClientAt (length (heap w)))\<rparr>,
     [RLock, MapLookup (spec_cache_key (environ x) (config c)) (Some NilClient), RUnlock,
      Lock, NewClient zero_aws_Config (ClientAt (length (heap w))),
      MapStore (spec_cache_key (environ x) (config c)) (ClientAt (length (heap w))), Unlock,
      TimerRecord (Scope (spec_tracer x (config c) ctx)) (DriverName x @ ''.connector.connect'')
        (clock_end x - clock_start x)])"
  using assms
  by (simp add: Connect_def install_tracer_eq resolve_client_eq complete_def Let_def NewFromConfig_def)

lemma Connect_miss_fail:
  assumes "clients w (spec_cache_key (environ x) (config c)) = None"
    and "LoadDefaultConfig x (spec_load_options (environ x) (config c)) = (cfg, Some e)"
  shows "Connect x c ctx w =
    ((None, Some e), c\<lparr>tracer := spec_tracer x (config c) ctx\<rparr>, w,
     [RLock, MapLookup (spec_cache_key (environ x) (config c)) None, RUnlock,
      Load (spec_load_options (environ x) (config c)) cfg (Some e),
      CounterInc (Scope (spec_tracer x (config c) ctx))
        (DriverName x @ ''.failure.sqlconnector.newsession'') 1])"
  using assms
  by (simp add: Connect_def install_tracer_eq resolve_client_eq complete_def Let_def)

lemma Connect_miss_ok:
  assumes "clients w (spec_cache_key (environ x) (config c)) = None"
    and "LoadDefaultConfig x (spec_load_options (environ x) (config c)) = (cfg, None)"
  shows "Connect x c ctx w =
    ((Some \<lparr>athenaAPI = ClientAt (length (heap w)),
            connector = c\<lparr>tracer := spec_tracer x (config c) ctx\<rparr>\<rparr>, None),
     c\<lparr>tracer := spec_tracer x (config c) ctx\<rparr>,
     w\<lparr>heap := heap w @ [cfg],
       clients := (clients w)(spec_cache_key (environ x) (config c) \<mapsto> ClientAt (length (heap w)))\<rparr>,
     [RLock, MapLookup (spec_cache_key (environ x) (config c)) None, RUnlock,
      Load (spec_load_options (environ x) (config c)) cfg None,
      Lock, NewClient cfg (ClientAt (length (heap w))),
      MapStore (spec_cache_key (environ x) (config c)) (ClientAt (length (heap w))), Unlock,
      TimerRecord (Scope (spec_tracer x (config c) ctx)) (DriverName x @ ''.connector.connect'')
        (clock_end x - clock_start x)])"
  using assms
  by (simp add: Connect_def install_tracer_eq resolve_client_eq complete_def Let_def NewFromConfig_def)

lemma Connect_cases:
  obtains (hit) a where "clients w (spec_cache_key (environ x) (config c)) = Some (ClientAt a)"
  | (nil_entry) "clients w (spec_cache_key (environ x) (config c)) = Some NilClient"
  | (miss_fail) cfg e where "clients w (spec_cache_key (environ x) (config c)) = None"
      "LoadDefaultConfig x (spec_load_options (environ x) (config c)) = (cfg, Some e)"
  | (miss_ok) cfg where "clients w (spec_cache_key (environ x) (config c)) = None"
      "LoadDefaultConfig x (spec_load_options (environ x) (config c)) = (cfg, None)"
proof (cases "clients w (spec_cache_key (environ x) (config c))")
  case None
  show ?thesis
  proof (cases "LoadDefaultConfig x (spec_load_options (environ x) (config c))")
    case (Pair cfg err)
    with None show ?thesis by (cases err) (auto intro: miss_fail miss_ok)
  qed
next
  case (Some p)
  then show ?thesis by (cases p) (auto intro: hit nil_entry)
qed

lemma cacheKey_of_eq: "cacheKey_of x c w = spec_cache_key (environ x) (config c)"
  by (simp add: cacheKey_of_def resolve_client_eq Let_def split: option.splits)

section \<open>The claims\<close>

text \<open>
  C1. For every configuration, environment, context and state of the cache, \<open>Connect\<close>
  resolves one strategy in the fixed order: environment-delegated when the variable
  \<open>AWS_SDK_LOAD_CONFIG\<close> parses as true (unset and unparsable count as false), else static
  credentials when the access id is not empty, else region only. Its Cache Key is
  \<open>#profile#\<close>, \<open>region##accessid\<close> or \<open>region##\<close> accordingly: this is the one key
  the call looks up, the key under which a returned connection's client is stored, and, when
  the key is absent, the configuration is loaded once, with the options of the resolved
  strategy. With region \<open>us-east-1\<close>, empty profile and access id and the variable unset
  the strategy is region-only and the key is \<open>us-east-1##\<close>.
\<close>

theorem C1_Connect_resolves_strategy_and_key:
  assumes "Connect x c ctx w = (r, c', w', tr)"
  shows "cacheKey_of x c w =
           (if flag_enabled (environ x) then ''#'' @ GetAWSProfile (config c) @ ''#''
            else if GetAccessID (config c) \<noteq> [] then GetRegion (config c) @ ''##'' @ GetAccessID (config c)
            else GetRegion (config c) @ ''##'')
       \<and> cacheKey_of x c w = spec_cache_key (environ x) (config c)
       \<and> lookups tr = [(cacheKey_of x c w, clients w (cacheKey_of x c w))]
       \<and> loads tr =
           (if clients w (cacheKey_of x c w) = None
            then [(spec_load_options (environ x) (config c),
                   LoadDefaultConfig x (spec_load_options (environ x) (config c)))]
            else [])
       \<and> (\<forall>conn. fst r = Some conn \<longrightarrow> clients w' (cacheKey_of x c w) = Some (athenaAPI conn))
       \<and> (environ x ''AWS_SDK_LOAD_CONFIG'' = None \<and> GetRegion (config c) = ''us-east-1''
            \<and> GetAWSProfile (config c) = [] \<and> GetAccessID (config c) = []
            \<longrightarrow> cacheKey_of x c w = ''us-east-1##'' \<and> spec_strategy (environ x) (config c) = RegionOnly)"
proof -
  have key: "cacheKey_of x c w = spec_cache_key (environ x) (config c)"
    by (rule cacheKey_of_eq)
  have shape: "spec_cache_key (environ x) (config c) =
           (if flag_enabled (environ x) then ''#'' @ GetAWSProfile (config c) @ ''#''
            else if GetAccessID (config c) \<noteq> [] then GetRegion (config c) @ ''##'' @ GetAccessID (config c)
            else GetRegion (config c) @ ''##'')"
    by (simp add: spec_cache_key_def spec_strategy_def)
  have example: "environ x ''AWS_SDK_LOAD_CONFIG'' = None \<and> GetRegion (config c) = ''us-east-1''
            \<and> GetAWSProfile (config c) = [] \<and> GetAccessID (config c) = []
            \<longrightarrow> spec_cache_key (environ x) (config c) = ''us-east-1##''
              \<and> spec_strategy (environ x) (config c) = RegionOnly"
    by (simp add: spec_cache_key_def spec_strategy_def flag_enabled_def)
  have events: "lookups tr = [(spec_cache_key (environ x) (config c),
                              clients w (spec_cache_key (environ x) (config c)))]
       \<and> loads tr =
           (if clients w (spec_cache_key (environ x) (config c)) = None
            then [(spec_load_options (environ x) (config c),
                   LoadDefaultConfig x (spec_load_options (environ x) (config c)))]
            else [])
       \<and> (\<forall>conn. fst r = Some conn \<longrightarrow>
             clients w' (spec_cache_key (environ x) (config c)) = Some (athenaAPI conn))"
  proof (cases rule: Connect_cases [of w x c])
    case (hit a)
    from Connect_hit [OF hit, of ctx] assms hit show ?thesis
      by (auto simp: lookups_def loads_def)
  next
    case nil_entry
    from Connect_nil_entry [OF nil_entry, of ctx] assms nil_entry show ?thesis
      by (auto simp: lookups_def loads_def)
  next
    case (miss_fail cfg e)
    from Connect_miss_fail [OF miss_fail, of ctx] assms miss_fail show ?thesis
      by (auto simp: lookups_def loads_def)
  next
    case (miss_ok cfg)
    from Connect_miss_ok [OF miss_ok, of ctx] assms miss_ok show ?thesis
      by (auto simp: lookups_def loads_def)
  qed
  from key shape example events show ?thesis by simp
qed

theorem C1_witness:
  "\<exists>r c' w' tr. Connect ex_extern ex_connector [] empty_world = (r, c', w', tr)
     \<and> cacheKey_of ex_extern ex_connector empty_world = ''us-east-1##''
     \<and> lookups tr = [(''us-east-1##'', None)]
     \<and> loads tr = [([WithRegion ''us-east-1''], AwsConfig 7, None)]"
proof -
  obtain r c' w' tr where run: "Connect ex_extern ex_connector [] empty_world = (r, c', w', tr)"
    by (metis prod_cases4)
  from C1_Connect_resolves_strategy_and_key [OF run] run show ?thesis
    by (simp add: ex_extern_def ex_connector_def ex_config_def empty_world_def
          spec_load_options_def spec_strategy_def flag_enabled_def)
qed

text \<open>
  C2. With the environment flag disabled and an empty access id, if a first call of
  \<open>Connect\<close> returns a connection, a second call with the same configuration (whatever its
  context, clock and the behaviour the loader would have) finds the client under the same
  key: it returns a connection on the same client, does not load any configuration, does
  not construct a client, and leaves the cache as it is.
\<close>

theorem C2_second_Connect_hits_cache:
  assumes "\<not> flag_enabled (environ x1)" and "\<not> flag_enabled (environ x2)"
    and "GetAccessID (config c1) = []" and "config c2 = config c1"
    and "Connect x1 c1 ctx1 w = ((Some conn1, None), c1', w1, tr1)"
  shows "\<exists>conn2 c2'.
           Connect x2 c2 ctx2 w1 =
             ((Some conn2, None), c2', w1,
              [RLock, MapLookup (GetRegion (config c1) @ ''##'') (Some (athenaAPI conn1)), RUnlock,
               TimerRecord (Scope (tracer c2')) (DriverName x2 @ ''.connector.connect'')
                 (clock_end x2 - clock_start x2)])
         \<and> athenaAPI conn2 = athenaAPI conn1
         \<and> loads (snd (snd (snd (Connect x2 c2 ctx2 w1)))) = []
         \<and> constructions (snd (snd (snd (Connect x2 c2 ctx2 w1)))) = []"
proof -
  have k1: "spec_cache_key (environ x1) (config c1) = GetRegion (config c1) @ ''##''"
    using assms(1,3) by (simp add: spec_cache_key_def spec_strategy_def)
  have k2: "spec_cache_key (environ x2) (config c2) = GetRegion (config c1) @ ''##''"
    using assms(2,3,4) by (simp add: spec_cache_key_def spec_strategy_def)
  have "\<exists>a. athenaAPI conn1 = ClientAt a \<and> clients w1 (GetRegion (config c1) @ ''##'') = Some (ClientAt a)"
  proof (cases rule: Connect_cases [of w x1 c1])
    case (hit a)
    from Connect_hit [OF hit, of ctx1] assms(5) hit k1 show ?thesis by auto
  next
    case nil_entry
    from Connect_nil_entry [OF nil_entry, of ctx1] assms(5) k1 show ?thesis by auto
  next
    case (miss_fail cfg e)
    from Connect_miss_fail [OF miss_fail, of ctx1] assms(5) show ?thesis by simp
  next
    case (miss_ok cfg)
    from Connect_miss_ok [OF miss_ok, of ctx1] assms(5) k1 show ?thesis by auto
  qed
  then obtain a where a: "athenaAPI conn1 = ClientAt a"
    and stored: "clients w1 (spec_cache_key (environ x2) (config c2)) = Some (ClientAt a)"
    using k2 by auto
  from Connect_hit [OF stored, of ctx2] a k2 show ?thesis
    by (simp add: loads_def constructions_def)
qed

theorem C2_witness:
  "\<exists>conn1 c1' w1 tr1 conn2 c2' tr2.
     Connect ex_extern ex_connector [] empty_world = ((Some conn1, None), c1', w1, tr1)
     \<and> loads tr1 = [([WithRegion ''us-east-1''], AwsConfig 7, None)]
     \<and> Connect ex_extern_failing ex_connector [] w1 = ((Some conn2, None), c2', w1, tr2)
     \<and> athenaAPI conn2 = athenaAPI conn1 \<and> loads tr2 = [] \<and> constructions tr2 = []"
proof -
  have miss: "clients empty_world (spec_cache_key (environ ex_extern) (config ex_connector)) = None"
    by (simp add: empty_world_def)
  have ld: "LoadDefaultConfig ex_extern (spec_load_options (environ ex_extern) (config ex_connector))
              = (AwsConfig 7, None)"
    by (simp add: ex_extern_def)
  have f1: "\<not> flag_enabled (environ ex_extern)" and f2: "\<not> flag_enabled (environ ex_extern_failing)"
    by (simp_all add: ex_extern_def ex_extern_failing_def flag_enabled_def)
  have acc: "GetAccessID (config ex_connector) = []"
    by (simp add: ex_connector_def ex_config_def)
  note run1 = Connect_miss_ok [OF miss ld, of "[]"]
  from C2_second_Connect_hits_cache [OF f1 f2 acc refl run1, of "[]"] run1
  show ?thesis
    by (auto simp: loads_def spec_load_options_def spec_strategy_def f1 acc ex_connector_def ex_config_def)
qed

text \<open>
  Two configurations with static credentials that differ only in the secret access key
  resolve to the same Cache Key: the key is made of region, profile and access id only.
\<close>

theorem C3_counterexample:
  "GetSecretAccessKey (config (ex_static ''us-west-2'' ''AKIA'' ''one''))
     \<noteq> GetSecretAccessKey (config (ex_static ''us-west-2'' ''AKIA'' ''two''))
   \<and> cacheKey_of ex_extern (ex_static ''us-west-2'' ''AKIA'' ''one'') empty_world
     = cacheKey_of ex_extern (ex_static ''us-west-2'' ''AKIA'' ''two'') empty_world"
  by (simp add: cacheKey_of_def resolve_client_def ParseBool_def Getenv_def ex_extern_def
        ex_static_def empty_world_def Let_def)

text \<open>
  C3, as the code has it. Two configurations that authenticate identically (the same
  options for loading the configuration) have the same Cache Key, and so do two that agree
  on the flag, the region, the profile and the access id, whatever their secret access keys
  and session tokens. Within one strategy the keys differ when the profiles differ
  (environment-delegated), when the regions differ (region-only), and when exactly one of
  region and access id differs (static credentials); for the same region the key of static
  credentials differs from the region-only key.
\<close>

theorem C3_cache_key_amended:
  "(spec_load_options (environ x1) (config c1) = spec_load_options (environ x2) (config c2)
      \<longrightarrow> cacheKey_of x1 c1 w1 = cacheKey_of x2 c2 w2)
   \<and> (flag_enabled (environ x1) = flag_enabled (environ x2)
       \<and> GetRegion (config c1) = GetRegion (config c2)
       \<and> GetAWSProfile (config c1) = GetAWSProfile (config c2)
       \<and> GetAccessID (config c1) = GetAccessID (config c2)
      \<longrightarrow> cacheKey_of x1 c1 w1 = cacheKey_of x2 c2 w2)
   \<and> (flag_enabled (environ x1) \<and> flag_enabled (environ x2)
       \<and> GetAWSProfile (config c1) \<noteq> GetAWSProfile (config c2)
      \<longrightarrow> cacheKey_of x1 c1 w1 \<noteq> cacheKey_of x2 c2 w2)
   \<and> (\<not> flag_enabled (environ x1) \<and> \<not> flag_enabled (environ x2)
       \<and> GetAccessID (config c1) \<noteq> [] \<and> GetAccessID (config c2) \<noteq> []
       \<and> GetRegion (config c1) = GetRegion (config c2)
       \<and> GetAccessID (config c1) \<noteq> GetAccessID (config c2)
      \<longrightarrow> cacheKey_of x1 c1 w1 \<noteq> cacheKey_of x2 c2 w2)
   \<and> (\<not> flag_enabled (environ x1) \<and> \<not> flag_enabled (environ x2)
       \<and> GetAccessID (config c1) \<noteq> [] \<and> GetAccessID (config c2) = GetAccessID (config c1)
       \<and> GetRegion (config c1) \<noteq> GetRegion (config c2)
      \<longrightarrow> cacheKey_of x1 c1 w1 \<noteq> cacheKey_of x2 c2 w2)
   \<and> (\<not> flag_enabled (environ x1) \<and> \<not> flag_enabled (environ x2)
       \<and> GetAccessID (config c1) = [] \<and> GetAccessID (config c2) = []
       \<and> GetRegion (config c1) \<noteq> GetRegion (config c2)
      \<longrightarrow> cacheKey_of x1 c1 w1 \<noteq> cacheKey_of x2 c2 w2)
   \<and> (\<not> flag_enabled (environ x1) \<and> \<not> flag_enabled (environ x2)
       \<and> GetAccessID (config c1) \<noteq> [] \<and> GetAccessID (config c2) = []
       \<and> GetRegion (config c1) = GetRegion (config c2)
      \<longrightarrow> cacheKey_of x1 c1 w1 \<noteq> cacheKey_of x2 c2 w2)"
proof -
  have same_auth: "spec_load_options (environ x1) (config c1) = spec_load_options (environ x2) (config c2)
      \<longrightarrow> spec_cache_key (environ x1) (config c1) = spec_cache_key (environ x2) (config c2)"
    by (auto simp: spec_load_options_def spec_cache_key_def spec_strategy_def split: if_splits)
  have same_fields: "flag_enabled (environ x1) = flag_enabled (environ x2)
       \<and> GetRegion (config c1) = GetRegion (config c2)
       \<and> GetAWSProfile (config c1) = GetAWSProfile (config c2)
       \<and> GetAccessID (config c1) = GetAccessID (config c2)
      \<longrightarrow> spec_cache_key (environ x1) (config c1) = spec_cache_key (environ x2) (config c2)"
    by (simp add: spec_cache_key_def spec_strategy_def)
  have env: "flag_enabled (environ x1) \<and> flag_enabled (environ x2)
       \<and> GetAWSProfile (config c1) \<noteq> GetAWSProfile (config c2)
      \<longrightarrow> spec_cache_key (environ x1) (config c1) \<noteq> spec_cache_key (environ x2) (config c2)"
    by (simp add: spec_cache_key_def spec_strategy_def)
  have static_id: "\<not> flag_enabled (environ x1) \<and> \<not> flag_enabled (environ x2)
       \<and> GetAccessID (config c1) \<noteq> [] \<and> GetAccessID (config c2) \<noteq> []
       \<and> GetRegion (config c1) = GetRegion (config c2)
       \<and> GetAccessID (config c1) \<noteq> GetAccessID (config c2)
      \<longrightarrow> spec_cache_key (environ x1) (config c1) \<noteq> spec_cache_key (environ x2) (config c2)"
    by (simp add: spec_cache_key_def spec_strategy_def)
  have static_region: "\<not> flag_enabled (environ x1) \<and> \<not> flag_enabled (environ x2)
       \<and> GetAccessID (config c1) \<noteq> [] \<and> GetAccessID (config c2) = GetAccessID (config c1)
       \<and> GetRegion (config c1) \<noteq> GetRegion (config c2)
      \<longrightarrow> spec_cache_key (environ x1) (config c1) \<noteq> spec_cache_key (environ x2) (config c2)"
    by (simp add: spec_cache_key_def spec_strategy_def)
  have region_only: "\<not> flag_enabled (environ x1) \<and> \<not> flag_enabled (environ x2)
       \<and> GetAccessID (config c1) = [] \<and> GetAccessID (config c2) = []
       \<and> GetRegion (config c1) \<noteq> GetRegion (config c2)
      \<longrightarrow> spec_cache_key (environ x1) (config c1) \<noteq> spec_cache_key (environ x2) (config c2)"
    by (simp add: spec_cache_key_def spec_strategy_def)
  have mixed: "\<not> flag_enabled (environ x1) \<and> \<not> flag_enabled (environ x2)
       \<and> GetAccessID (config c1) \<noteq> [] \<and> GetAccessID (config c2) = []
       \<and> GetRegion (config c1) = GetRegion (config c2)
      \<longrightarrow> spec_cache_key (environ x1) (config c1) \<noteq> spec_cache_key (environ x2) (config c2)"
    by (simp add: spec_cache_key_def spec_strategy_def)
  from same_auth same_fields env static_id static_region region_only mixed show ?thesis
    unfolding cacheKey_of_eq by blast
qed

theorem C3_witness:
  "cacheKey_of ex_extern (ex_static ''us-west-2'' ''AKIA'' ''one'') empty_world
     = cacheKey_of ex_extern (ex_static ''us-west-2'' ''AKIA'' ''two'') empty_world
   \<and> cacheKey_of ex_extern (ex_static ''us-west-2'' ''AKIA'' ''one'') empty_world
     \<noteq> cacheKey_of ex_extern (ex_static ''us-west-2'' ''AKIB'' ''one'') empty_world
   \<and> cacheKey_of ex_extern (ex_static ''us-west-2'' ''AKIA'' ''one'') empty_world
     \<noteq> cacheKey_of ex_extern (ex_static ''us-east-1'' ''AKIA'' ''one'') empty_world
   \<and> cacheKey_of ex_extern (ex_static ''us-west-2'' ''AKIA'' ''one'') empty_world
     \<noteq> cacheKey_of ex_extern (ex_static ''us-west-2'' [] []) empty_world
   \<and> cacheKey_of ex_extern (ex_static ''us-west-2'' [] []) empty_world
     \<noteq> cacheKey_of ex_extern (ex_static ''us-east-1'' [] []) empty_world
   \<and> cacheKey_of ex_extern_flag (ex_profile ''dev'') empty_world
     \<noteq> cacheKey_of ex_extern_flag (ex_profile ''prod'') empty_world
   \<and> cacheKey_of ex_extern_flag (ex_profile ''dev'') empty_world
     = cacheKey_of ex_extern_flag (ex_profile ''dev'') empty_world"
proof -
  have off: "\<not> flag_enabled (environ ex_extern)"
    by (simp add: ex_extern_def flag_enabled_def)
  have on: "flag_enabled (environ ex_extern_flag)"
    by (simp add: ex_extern_flag_def ex_extern_def flag_enabled_def ParseBool_def)
  note inst = C3_cache_key_amended [of _ _ _ _ empty_world empty_world]
  from inst [of ex_extern "ex_static ''us-west-2'' ''AKIA'' ''one''"
                ex_extern "ex_static ''us-west-2'' ''AKIA'' ''two''"]
  have secret: "cacheKey_of ex_extern (ex_static ''us-west-2'' ''AKIA'' ''one'') empty_world
     = cacheKey_of ex_extern (ex_static ''us-west-2'' ''AKIA'' ''two'') empty_world"
    by (simp add: ex_static_def)
  from inst [of ex_extern "ex_static ''us-west-2'' ''AKIA'' ''one''"
                ex_extern "ex_static ''us-west-2'' ''AKIB'' ''one''"] off
  have ids: "cacheKey_of ex_extern (ex_static ''us-west-2'' ''AKIA'' ''one'') empty_world
     \<noteq> cacheKey_of ex_extern (ex_static ''us-west-2'' ''AKIB'' ''one'') empty_world"
    by (simp add: ex_static_def)
  from inst [of ex_extern "ex_static ''us-west-2'' ''AKIA'' ''one''"
                ex_extern "ex_static ''us-east-1'' ''AKIA'' ''one''"] off
  have regions: "cacheKey_of ex_extern (ex_static ''us-west-2'' ''AKIA'' ''one'') empty_world
     \<noteq> cacheKey_of ex_extern (ex_static ''us-east-1'' ''AKIA'' ''one'') empty_world"
    by (simp add: ex_static_def)
  from inst [of ex_extern "ex_static ''us-west-2'' ''AKIA'' ''one''"
                ex_extern "ex_static ''us-west-2'' [] []"] off
  have mixed: "cacheKey_of ex_extern (ex_static ''us-west-2'' ''AKIA'' ''one'') empty_world
     \<noteq> cacheKey_of ex_extern (ex_static ''us-west-2'' [] []) empty_world"
    by (simp add: ex_static_def)
  from inst [of ex_extern "ex_static ''us-west-2'' [] []"
                ex_extern "ex_static ''us-east-1'' [] []"] off
  have region_only: "cacheKey_of ex_extern (ex_static ''us-west-2'' [] []) empty_world
     \<noteq> cacheKey_of ex_extern (ex_static ''us-east-1'' [] []) empty_world"
    by (simp add: ex_static_def)
  from inst [of ex_extern_flag "ex_profile ''dev''" ex_extern_flag "ex_profile ''prod''"] on
  have profiles: "cacheKey_of ex_extern_flag (ex_profile ''dev'') empty_world
     \<noteq> cacheKey_of ex_extern_flag (ex_profile ''prod'') empty_world"
    by (simp add: ex_profile_def)
  from inst [of ex_extern_flag "ex_profile ''dev''" ex_extern_flag "ex_profile ''dev''"]
  have same: "cacheKey_of ex_extern_flag (ex_profile ''dev'') empty_world
     = cacheKey_of ex_extern_flag (ex_profile ''dev'') empty_world"
    by simp
  from secret ids regions mixed region_only profiles same show ?thesis by simp
qed

text \<open>
  C4. In every call of \<open>Connect\<close> in which the loading of the external configuration
  fails, the call returns no connection and the loading error; its events end with the one
  increment, by one, of the counter \<open>DriverName.failure.sqlconnector.newsession\<close> on the
  tracer's scope, after the failed loading; and the cache is left as it was.
\<close>

theorem C4_load_failure_counted_once:
  assumes "Connect x c ctx w = (r, c', w', tr)"
    and "(opts, cfg, Some e) \<in> set (loads tr)"
  shows "r = (None, Some e)
       \<and> counters tr = [(Scope (tracer c'), DriverName x @ ''.failure.sqlconnector.newsession'', 1)]
       \<and> tr = [RLock, MapLookup (cacheKey_of x c w) None, RUnlock, Load opts cfg (Some e),
               CounterInc (Scope (tracer c')) (DriverName x @ ''.failure.sqlconnector.newsession'') 1]
       \<and> w' = w"
proof (cases rule: Connect_cases [of w x c])
  case (hit a)
  from Connect_hit [OF hit, of ctx] assms show ?thesis
    by (auto simp: loads_def)
next
  case nil_entry
  from Connect_nil_entry [OF nil_entry, of ctx] assms show ?thesis
    by (auto simp: loads_def)
next
  case (miss_fail cfg' e')
  from Connect_miss_fail [OF miss_fail, of ctx] assms show ?thesis
    by (auto simp: loads_def counters_def cacheKey_of_eq)
next
  case (miss_ok cfg')
  from Connect_miss_ok [OF miss_ok, of ctx] assms show ?thesis
    by (auto simp: loads_def)
qed

theorem C4_witness:
  "\<exists>c' tr. Connect ex_extern_failing ex_connector [] empty_world
              = ((None, Some (ExternalError 1)), c', empty_world, tr)
     \<and> loads tr = [([WithRegion ''us-east-1''], zero_aws_Config, Some (ExternalError 1))]
     \<and> counters tr = [(TallyScope 0, ''awsathena.failure.sqlconnector.newsession'', 1)]"
proof -
  obtain r c' w' tr where run: "Connect ex_extern_failing ex_connector [] empty_world = (r, c', w', tr)"
    by (metis prod_cases4)
  have miss: "clients empty_world
                (spec_cache_key (environ ex_extern_failing) (config ex_connector)) = None"
    by (simp add: empty_world_def)
  have ld: "LoadDefaultConfig ex_extern_failing
              (spec_load_options (environ ex_extern_failing) (config ex_connector))
              = (zero_aws_Config, Some (ExternalError 1))"
    by (simp add: ex_extern_failing_def)
  have opts: "spec_load_options (environ ex_extern_failing) (config ex_connector)
                = [WithRegion ''us-east-1'']"
    by (simp add: spec_load_options_def spec_strategy_def flag_enabled_def ex_extern_failing_def
          ex_extern_def ex_connector_def ex_config_def)
  from Connect_miss_fail [OF miss ld, of "[]"] run opts
  have tr: "loads tr = [([WithRegion ''us-east-1''], zero_aws_Config, Some (ExternalError 1))]"
    and c': "Scope (tracer c') = TallyScope 0"
    by (auto simp: loads_def spec_tracer_def ctx_Value_def ex_extern_failing_def ex_extern_def
          ex_tracer_def)
  from tr have "([WithRegion ''us-east-1''], zero_aws_Config, Some (ExternalError 1)) \<in> set (loads tr)"
    by simp
  from C4_load_failure_counted_once [OF run this]
  have r: "r = (None, Some (ExternalError 1))"
    and cnt: "counters tr = [(Scope (tracer c'),
                DriverName ex_extern_failing @ ''.failure.sqlconnector.newsession'', 1)]"
    and w': "w' = empty_world"
    by blast+
  have dn: "DriverName ex_extern_failing = ''awsathena''"
    by (simp add: ex_extern_failing_def ex_extern_def)
  from run r cnt w' tr c' dn show ?thesis by simp
qed

text \<open>
  In a call that misses the cache, the client is constructed while the write lock is held:
  the sixth event of the call is the construction, and the write lock is held then.
\<close>

theorem C5_counterexample:
  "lookups (snd (snd (snd (Connect ex_extern ex_connector [] empty_world)))) = [(''us-east-1##'', None)]
   \<and> held_at no_lock (snd (snd (snd (Connect ex_extern ex_connector [] empty_world)))) ! 5
       = (write_lock, NewClient (AwsConfig 7) (ClientAt 0))"
proof -
  have miss: "clients empty_world (spec_cache_key (environ ex_extern) (config ex_connector)) = None"
    by (simp add: empty_world_def)
  have ld: "LoadDefaultConfig ex_extern (spec_load_options (environ ex_extern) (config ex_connector))
              = (AwsConfig 7, None)"
    by (simp add: ex_extern_def)
  have key: "spec_cache_key (environ ex_extern) (config ex_connector) = ''us-east-1##''"
    by (simp add: spec_cache_key_def spec_strategy_def flag_enabled_def ex_extern_def
          ex_connector_def ex_config_def)
  show ?thesis
    unfolding Connect_miss_ok [OF miss ld] key
    by (simp add: lookups_def no_lock_def write_lock_def empty_world_def)
qed

text \<open>
  C5, as the code has it. In every call of \<open>Connect\<close> that misses the cache, the read lock
  is held for the lookup only, and the external configuration is loaded while no lock is
  held. When the loading fails nothing is constructed or stored. When it succeeds the write
  lock is taken next, and while it is held the client is constructed from the loaded
  configuration and stored under the key; then the lock is released.
\<close>

theorem C5_loading_outside_locks_construction_under_write_lock:
  assumes "Connect x c ctx w = (r, c', w', tr)"
    and "(k, None) \<in> set (lookups tr)"
  shows "\<exists>opts cfg e.
           take 4 (held_at no_lock tr) =
             [(no_lock, RLock), (read_lock, MapLookup k None), (read_lock, RUnlock),
              (no_lock, Load opts cfg e)]
         \<and> (e \<noteq> None \<longrightarrow> constructions tr = [] \<and> w' = w)
         \<and> (e = None \<longrightarrow>
              (\<exists>p. drop 4 (held_at no_lock tr) =
                 [(no_lock, Lock), (write_lock, NewClient cfg p), (write_lock, MapStore k p),
                  (write_lock, Unlock),
                  (no_lock, TimerRecord (Scope (tracer c')) (DriverName x @ ''.connector.connect'')
                              (clock_end x - clock_start x))]
               \<and> p \<noteq> NilClient \<and> clients w' k = Some p \<and> fst r = Some \<lparr>athenaAPI = p, connector = c'\<rparr>))"
proof (cases rule: Connect_cases [of w x c])
  case (hit a)
  from Connect_hit [OF hit, of ctx] assms show ?thesis
    by (auto simp: lookups_def)
next
  case nil_entry
  from Connect_nil_entry [OF nil_entry, of ctx] assms show ?thesis
    by (auto simp: lookups_def)
next
  case (miss_fail cfg' e')
  from Connect_miss_fail [OF miss_fail, of ctx] assms show ?thesis
    by (auto simp: lookups_def constructions_def no_lock_def read_lock_def write_lock_def)
next
  case (miss_ok cfg')
  from Connect_miss_ok [OF miss_ok, of ctx] assms show ?thesis
    by (auto simp: lookups_def constructions_def no_lock_def read_lock_def write_lock_def)
qed

theorem C5_witness:
  "\<exists>r c' w' tr. Connect ex_extern ex_connector [] empty_world = (r, c', w', tr)
     \<and> lookups tr = [(''us-east-1##'', None)]
     \<and> map fst (held_at no_lock tr) =
         [no_lock, read_lock, read_lock, no_lock, no_lock, write_lock, write_lock, write_lock, no_lock]
     \<and> clients w' ''us-east-1##'' = Some (ClientAt 0)"
proof -
  obtain r c' w' tr where run: "Connect ex_extern ex_connector [] empty_world = (r, c', w', tr)"
    by (metis prod_cases4)
  have miss: "clients empty_world (spec_cache_key (environ ex_extern) (config ex_connector)) = None"
    by (simp add: empty_world_def)
  have ld: "LoadDefaultConfig ex_extern (spec_load_options (environ ex_extern) (config ex_connector))
              = (AwsConfig 7, None)"
    by (simp add: ex_extern_def)
  have key: "spec_cache_key (environ ex_extern) (config ex_connector) = ''us-east-1##''"
    by (simp add: spec_cache_key_def spec_strategy_def flag_enabled_def ex_extern_def
          ex_connector_def ex_config_def)
  from Connect_miss_ok [OF miss ld, of "[]"] run key
  have tr: "lookups tr = [(''us-east-1##'', None)]"
    and shape: "map fst (held_at no_lock tr) =
         [no_lock, read_lock, read_lock, no_lock, no_lock, write_lock, write_lock, write_lock, no_lock]"
    and stored: "clients w' ''us-east-1##'' = Some (ClientAt 0)"
    by (auto simp: lookups_def no_lock_def read_lock_def write_lock_def empty_world_def)
  from tr have "(''us-east-1##'', None) \<in> set (lookups tr)" by simp
  from C5_loading_outside_locks_construction_under_write_lock [OF run this] run tr shape stored
  show ?thesis by simp
qed

text \<open>The invariant of the cache is kept by every call, and entries stay as they are.\<close>

lemma cache_ok_more_events: "cache_ok w tr0 \<Longrightarrow> cache_ok w (tr0 @ tr)"
  unfolding cache_ok_def by fastforce

lemma Connect_cache_step:
  assumes ok: "cache_ok w tr0" and run: "Connect x c ctx w = (r, c', w', tr)"
  shows "cache_ok w' (tr0 @ tr) \<and> (\<forall>k p. clients w k = Some p \<longrightarrow> clients w' k = Some p)"
proof (cases rule: Connect_cases [of w x c])
  case (hit a)
  from Connect_hit [OF hit, of ctx] run have "w' = w" by simp
  with ok show ?thesis by (simp add: cache_ok_more_events)
next
  case nil_entry
  with ok show ?thesis unfolding cache_ok_def by fastforce
next
  case (miss_fail cfg e)
  from Connect_miss_fail [OF miss_fail, of ctx] run have "w' = w" by simp
  with ok show ?thesis by (simp add: cache_ok_more_events)
next
  case (miss_ok cfg)
  let ?k = "spec_cache_key (environ x) (config c)"
  let ?p = "ClientAt (length (heap w))"
  from Connect_miss_ok [OF miss_ok, of ctx] run
  have w': "w' = w\<lparr>heap := heap w @ [cfg], clients := (clients w)(?k \<mapsto> ?p)\<rparr>"
    and ld: "Load (spec_load_options (environ x) (config c)) cfg None \<in> set tr"
    and nc: "NewClient cfg ?p \<in> set tr"
    by auto
  have keep: "\<forall>k p. clients w k = Some p \<longrightarrow> clients w' k = Some p"
    using miss_ok(1) by (auto simp: w')
  have "cache_ok w' (tr0 @ tr)"
    unfolding cache_ok_def
  proof (intro allI impI)
    fix k p assume kp: "clients w' k = Some p"
    show "\<exists>a opts. p = ClientAt a \<and> a < length (heap w') \<and>
            Load opts (heap w' ! a) None \<in> set (tr0 @ tr) \<and> NewClient (heap w' ! a) p \<in> set (tr0 @ tr)"
    proof (cases "k = ?k")
      case True
      with kp have "p = ?p" by (simp add: w')
      with ld nc show ?thesis by (auto simp: w')
    next
      case False
      with kp have "clients w k = Some p" by (simp add: w')
      with ok obtain a opts where "p = ClientAt a" "a < length (heap w)"
        "Load opts (heap w ! a) None \<in> set tr0" "NewClient (heap w ! a) p \<in> set tr0"
        unfolding cache_ok_def by blast
      then show ?thesis by (auto simp: w' nth_append)
    qed
  qed
  with keep show ?thesis by simp
qed

lemma connect_all_cache:
  "cache_ok w tr0 \<Longrightarrow> connect_all cs w = (w', tr) \<Longrightarrow>
     cache_ok w' (tr0 @ tr) \<and> (\<forall>k p. clients w k = Some p \<longrightarrow> clients w' k = Some p)"
proof (induction cs arbitrary: w tr0 tr w')
  case Nil
  then show ?case by simp
next
  case (Cons call cs)
  obtain x c ctx where call: "call = (x, c, ctx)" by (cases call)
  obtain r c1 w1 tr1 where step: "Connect x c ctx w = (r, c1, w1, tr1)" by (metis prod_cases4)
  obtain w2 tr2 where rest: "connect_all cs w1 = (w2, tr2)" by (cases "connect_all cs w1")
  from Cons.prems(2) call step rest have res: "w' = w2" "tr = tr1 @ tr2" by simp_all
  from Connect_cache_step [OF Cons.prems(1) step]
  have ok1: "cache_ok w1 (tr0 @ tr1)" and keep1: "\<forall>k p. clients w k = Some p \<longrightarrow> clients w1 k = Some p"
    by blast+
  from Cons.IH [OF ok1 rest]
  have "cache_ok w2 ((tr0 @ tr1) @ tr2)" and "\<forall>k p. clients w1 k = Some p \<longrightarrow> clients w2 k = Some p"
    by blast+
  with keep1 res show ?case by simp
qed

lemma connect_all_append:
  "connect_all (cs1 @ cs2) w =
     (case connect_all cs1 w of
        (w1, tr1) \<Rightarrow> (case connect_all cs2 w1 of (w2, tr2) \<Rightarrow> (w2, tr1 @ tr2)))"
  by (induction cs1 arbitrary: w) (auto split: prod.splits)

lemma cache_ok_empty: "cache_ok empty_world []"
  by (simp add: cache_ok_def empty_world_def)

text \<open>Three calls evaluated: one that loads and stores, one that fails, one that hits.\<close>

lemma ex_first_call:
  "Connect ex_extern ex_connector [] empty_world =
     ((Some \<lparr>athenaAPI = ClientAt 0, connector = ex_connector\<rparr>, None), ex_connector, ex_world,
      [RLock, MapLookup ''us-east-1##'' None, RUnlock, Load [WithRegion ''us-east-1''] (AwsConfig 7) None,
       Lock, NewClient (AwsConfig 7) (ClientAt 0), MapStore ''us-east-1##'' (ClientAt 0), Unlock,
       TimerRecord (TallyScope 0) ''awsathena.connector.connect'' 30])"
  by (simp add: Connect_def install_tracer_def resolve_client_def complete_def NewFromConfig_def
        ParseBool_def Getenv_def ctx_Value_def ex_extern_def ex_connector_def ex_config_def
        ex_tracer_def empty_world_def ex_world_def Let_def)

lemma ex_failing_call:
  "Connect ex_extern_failing (ex_static ''us-west-2'' ''AKIA'' ''one'') [] ex_world =
     ((None, Some (ExternalError 1)), ex_static ''us-west-2'' ''AKIA'' ''one'', ex_world,
      [RLock, MapLookup ''us-west-2##AKIA'' None, RUnlock,
       Load [WithRegion ''us-west-2'', WithCredentialsProvider (StaticCredentialsProvider ''AKIA'' ''one'' [])]
         zero_aws_Config (Some (ExternalError 1)),
       CounterInc (TallyScope 0) ''awsathena.failure.sqlconnector.newsession'' 1])"
  by (simp add: Connect_def install_tracer_def resolve_client_def complete_def NewFromConfig_def
        ParseBool_def Getenv_def ctx_Value_def ex_extern_failing_def ex_extern_def ex_static_def
        ex_tracer_def ex_world_def Let_def)

lemma ex_hit_call:
  "Connect ex_extern ex_connector [] ex_world =
     ((Some \<lparr>athenaAPI = ClientAt 0, connector = ex_connector\<rparr>, None), ex_connector, ex_world,
      [RLock, MapLookup ''us-east-1##'' (Some (ClientAt 0)), RUnlock,
       TimerRecord (TallyScope 0) ''awsathena.connector.connect'' 30])"
  by (simp add: Connect_def install_tracer_def resolve_client_def complete_def NewFromConfig_def
        ParseBool_def Getenv_def ctx_Value_def ex_extern_def ex_connector_def ex_config_def
        ex_tracer_def ex_world_def Let_def)

text \<open>
  C6. After any sequence of calls of \<open>Connect\<close> that starts from the empty cache, no key
  of the map holds nil: every entry is the address of a client that was constructed from a
  configuration loaded without error. An entry present after some first part of the
  sequence is present, unchanged, at the end: nothing is removed or replaced.
\<close>

theorem C6_cache_never_holds_nil:
  assumes "connect_all cs empty_world = (w, tr)"
  shows "(\<forall>k p. clients w k = Some p \<longrightarrow> p \<noteq> NilClient)
       \<and> cache_ok w tr
       \<and> (\<forall>cs1 cs2 w1 tr1 k p.
            cs = cs1 @ cs2 \<and> connect_all cs1 empty_world = (w1, tr1) \<and> clients w1 k = Some p
            \<longrightarrow> clients w k = Some p)"
proof -
  from connect_all_cache [OF cache_ok_empty assms] have ok: "cache_ok w tr" by simp
  then have nonnil: "\<forall>k p. clients w k = Some p \<longrightarrow> p \<noteq> NilClient"
    unfolding cache_ok_def by fastforce
  have "clients w k = Some p"
    if "cs = cs1 @ cs2" "connect_all cs1 empty_world = (w1, tr1)" "clients w1 k = Some p"
    for cs1 cs2 w1 tr1 k p
  proof -
    obtain w2 tr2 where rest: "connect_all cs2 w1 = (w2, tr2)" by (cases "connect_all cs2 w1")
    from assms that(1,2) rest have "w = w2" by (simp add: connect_all_append)
    moreover from connect_all_cache [OF cache_ok_empty that(2)] have "cache_ok w1 tr1" by simp
    from connect_all_cache [OF this rest] that(3) have "clients w2 k = Some p" by blast
    ultimately show ?thesis by simp
  qed
  with ok nonnil show ?thesis by blast
qed

theorem C6_witness:
  "\<exists>tr. connect_all ex_calls empty_world = (ex_world, tr)
     \<and> connect_all (take 1 ex_calls) empty_world = (ex_world, take 9 tr)
     \<and> clients ex_world ''us-east-1##'' = Some (ClientAt 0)
     \<and> ClientAt 0 \<noteq> NilClient
     \<and> cache_ok ex_world tr"
proof -
  have run: "connect_all ex_calls empty_world =
     (ex_world,
      [RLock, MapLookup ''us-east-1##'' None, RUnlock, Load [WithRegion ''us-east-1''] (AwsConfig 7) None,
       Lock, NewClient (AwsConfig 7) (ClientAt 0), MapStore ''us-east-1##'' (ClientAt 0), Unlock,
       TimerRecord (TallyScope 0) ''awsathena.connector.connect'' 30,
       RLock, MapLookup ''us-west-2##AKIA'' None, RUnlock,
       Load [WithRegion ''us-west-2'', WithCredentialsProvider (StaticCredentialsProvider ''AKIA'' ''one'' [])]
         zero_aws_Config (Some (ExternalError 1)),
       CounterInc (TallyScope 0) ''awsathena.failure.sqlconnector.newsession'' 1,
       RLock, MapLookup ''us-east-1##'' (Some (ClientAt 0)), RUnlock,
       TimerRecord (TallyScope 0) ''awsathena.connector.connect'' 30])"
    by (simp add: ex_calls_def ex_first_call ex_failing_call ex_hit_call)
  have first: "connect_all (take 1 ex_calls) empty_world =
     (ex_world,
      [RLock, MapLookup ''us-east-1##'' None, RUnlock, Load [WithRegion ''us-east-1''] (AwsConfig 7) None,
       Lock, NewClient (AwsConfig 7) (ClientAt 0), MapStore ''us-east-1##'' (ClientAt 0), Unlock,
       TimerRecord (TallyScope 0) ''awsathena.connector.connect'' 30])"
    by (simp add: ex_calls_def ex_first_call)
  have entry: "clients ex_world ''us-east-1##'' = Some (ClientAt 0)"
    by (simp add: ex_world_def)
  have split: "ex_calls = take 1 ex_calls @ drop 1 ex_calls" by simp
  from C6_cache_never_holds_nil [OF run] split first entry
  have "ClientAt 0 \<noteq> NilClient" and "cache_ok ex_world
      [RLock, MapLookup ''us-east-1##'' None, RUnlock, Load [WithRegion ''us-east-1''] (AwsConfig 7) None,
       Lock, NewClient (AwsConfig 7) (ClientAt 0), MapStore ''us-east-1##'' (ClientAt 0), Unlock,
       TimerRecord (TallyScope 0) ''awsathena.connector.connect'' 30,
       RLock, MapLookup ''us-west-2##AKIA'' None, RUnlock,
       Load [WithRegion ''us-west-2'', WithCredentialsProvider (StaticCredentialsProvider ''AKIA'' ''one'' [])]
         zero_aws_Config (Some (ExternalError 1)),
       CounterInc (TallyScope 0) ''awsathena.failure.sqlconnector.newsession'' 1,
       RLock, MapLookup ''us-east-1##'' (Some (ClientAt 0)), RUnlock,
       TimerRecord (TallyScope 0) ''awsathena.connector.connect'' 30]"
    by blast+
  with run first entry show ?thesis by simp
qed

text \<open>
  C7. For every workgroup whose tag set \<open>Get\<close> returns, and every client,
  \<open>CreateWGRemotely\<close> makes one create-workgroup call. When the tag set has length zero the
  request has no tags field; otherwise its tags field holds exactly the tags of the
  workgroup. In both shapes the request carries the stored name and configuration, and the
  error of the remote call is returned as it is.
\<close>

theorem C7_CreateWGRemotely_request_shape:
  assumes "WGTags_Get x (Tags w) = Some tags"
  shows "(length tags = 0 \<longrightarrow>
            CreateWGRemotely x w (ClientAt a) =
              (Return (CreateWorkGroup x a context_TODO
                         \<lparr>Configuration = Config w, Name_in = Some (Name w), Tags_in = None\<rparr>),
               [CreateWorkGroupCall a context_TODO
                  \<lparr>Configuration = Config w, Name_in = Some (Name w), Tags_in = None\<rparr>]))
       \<and> (length tags \<noteq> 0 \<longrightarrow>
            CreateWGRemotely x w (ClientAt a) =
              (Return (CreateWorkGroup x a context_TODO
                         \<lparr>Configuration = Config w, Name_in = Some (Name w), Tags_in = Some tags\<rparr>),
               [CreateWorkGroupCall a context_TODO
                  \<lparr>Configuration = Config w, Name_in = Some (Name w), Tags_in = Some tags\<rparr>]))"
  using assms by (simp add: CreateWGRemotely_def aws_String_def Let_def)

theorem C7_witness:
  "CreateWGRemotely ex_wg_extern (ex_workgroup 0) (ClientAt 0) =
     (Return None,
      [CreateWorkGroupCall 0 context_TODO
         \<lparr>Configuration = Some (WorkGroupConfiguration 1), Name_in = Some ''analytics'', Tags_in = None\<rparr>])
   \<and> CreateWGRemotely ex_wg_extern (ex_workgroup 2) (ClientAt 0) =
     (Return (Some (ExternalError 2)),
      [CreateWorkGroupCall 0 context_TODO
         \<lparr>Configuration = Some (WorkGroupConfiguration 1), Name_in = Some ''analytics'',
          Tags_in = Some [Tag ''team'' ''data'', Tag ''team'' ''data'']\<rparr>])"
proof -
  have g0: "WGTags_Get ex_wg_extern (Tags (ex_workgroup 0)) = Some []"
    by (simp add: ex_wg_extern_def ex_workgroup_def NewWG_def)
  have g2: "WGTags_Get ex_wg_extern (Tags (ex_workgroup 2)) = Some [Tag ''team'' ''data'', Tag ''team'' ''data'']"
    by (simp add: ex_wg_extern_def ex_workgroup_def NewWG_def numeral_2_eq_2)
  have fields: "Config (ex_workgroup n) = Some (WorkGroupConfiguration 1)" "Name (ex_workgroup n) = ''analytics''" for n
    by (simp_all add: ex_workgroup_def NewWG_def)
  have remote: "CreateWorkGroup ex_wg_extern a ctx input = (if Tags_in input = None then None else Some (ExternalError 2))"
    for a ctx input
    by (simp add: ex_wg_extern_def)
  from C7_CreateWGRemotely_request_shape [OF g0, of 0] C7_CreateWGRemotely_request_shape [OF g2, of 0]
  show ?thesis by (simp add: fields remote)
qed

text \<open>
  C8. For every workgroup name and context, \<open>getWG\<close> on a nil client returns
  \<open>ErrAthenaNilAPI\<close> and makes no remote call. On a client it makes the one remote
  get-workgroup call for that name, and returns the workgroup of the output when the call
  succeeds, and the error of the call, unchanged, when it fails; it never returns both a
  workgroup and an error.
\<close>

theorem C8_getWG_nil_client_and_propagation:
  "getWG x ctx NilClient name = ((None, Some ErrAthenaNilAPI), [])
   \<and> snd (getWG x ctx (ClientAt a) name) = [GetWorkGroupCall a ctx \<lparr>WorkGroup_in = Some name\<rparr>]
   \<and> (\<forall>e. GetWorkGroup x a ctx \<lparr>WorkGroup_in = Some name\<rparr> = Inl e
          \<longrightarrow> fst (getWG x ctx (ClientAt a) name) = (None, Some e))
   \<and> (\<forall>out. GetWorkGroup x a ctx \<lparr>WorkGroup_in = Some name\<rparr> = Inr out
          \<longrightarrow> fst (getWG x ctx (ClientAt a) name) = (WorkGroup_out out, None))
   \<and> \<not> (fst (fst (getWG x ctx p name)) \<noteq> None \<and> snd (fst (getWG x ctx p name)) \<noteq> None)"
  by (auto simp: getWG_def aws_String_def Let_def split: client_ptr.splits sum.splits)

theorem C8_witness:
  "getWG ex_wg_extern [] NilClient ''primary'' = ((None, Some ErrAthenaNilAPI), [])
   \<and> getWG ex_wg_extern [] (ClientAt 0) ''primary''
       = ((Some (WorkGroup 1), None), [GetWorkGroupCall 0 [] \<lparr>WorkGroup_in = Some ''primary''\<rparr>])
   \<and> getWG ex_wg_extern [] (ClientAt 0) ''other''
       = ((None, Some (ExternalError 3)), [GetWorkGroupCall 0 [] \<lparr>WorkGroup_in = Some ''other''\<rparr>])"
proof -
  have ok: "GetWorkGroup ex_wg_extern 0 [] \<lparr>WorkGroup_in = Some ''primary''\<rparr>
              = Inr \<lparr>WorkGroup_out = Some (WorkGroup 1)\<rparr>"
    and bad: "GetWorkGroup ex_wg_extern 0 [] \<lparr>WorkGroup_in = Some ''other''\<rparr> = Inl (ExternalError 3)"
    by (simp_all add: ex_wg_extern_def)
  from C8_getWG_nil_client_and_propagation [of ex_wg_extern "[]" "''primary''" 0 NilClient]
       C8_getWG_nil_client_and_propagation [of ex_wg_extern "[]" "''other''" 0 NilClient] ok bad
  show ?thesis by (simp add: prod_eq_iff)
qed

text \<open>
  C9. Whenever the cache holds a client under the Cache Key that the call resolves,
  \<open>Connect\<close> cannot fail: the error is nil, the failure counter is not touched, no
  configuration is loaded and no client is constructed, the cache is left as it is, and the
  connection returned wraps the cached client.
\<close>

theorem C9_cache_hit_cannot_fail:
  assumes "clients w (cacheKey_of x c w) = Some (ClientAt a)"
  shows "Connect x c ctx w =
           ((Some \<lparr>athenaAPI = ClientAt a, connector = install_tracer x c ctx\<rparr>, None),
            install_tracer x c ctx, w,
            [RLock, MapLookup (cacheKey_of x c w) (Some (ClientAt a)), RUnlock,
             TimerRecord (Scope (tracer (install_tracer x c ctx))) (DriverName x @ ''.connector.connect'')
               (clock_end x - clock_start x)])
       \<and> snd (fst (Connect x c ctx w)) = None
       \<and> counters (snd (snd (snd (Connect x c ctx w)))) = []
       \<and> loads (snd (snd (snd (Connect x c ctx w)))) = []
       \<and> constructions (snd (snd (snd (Connect x c ctx w)))) = []"
proof -
  from assms have hit: "clients w (spec_cache_key (environ x) (config c)) = Some (ClientAt a)"
    by (simp add: cacheKey_of_eq)
  show ?thesis
    unfolding Connect_hit [OF hit]
    by (simp add: install_tracer_eq cacheKey_of_eq counters_def loads_def constructions_def)
qed

theorem C9_witness:
  "clients ex_world (cacheKey_of ex_extern_failing ex_connector ex_world) = Some (ClientAt 0)
   \<and> fst (Connect ex_extern_failing ex_connector [] ex_world)
       = (Some \<lparr>athenaAPI = ClientAt 0, connector = ex_connector\<rparr>, None)
   \<and> loads (snd (snd (snd (Connect ex_extern_failing ex_connector [] ex_world)))) = []"
proof -
  have key: "cacheKey_of ex_extern_failing ex_connector ex_world = ''us-east-1##''"
    by (simp add: cacheKey_of_eq spec_cache_key_def spec_strategy_def flag_enabled_def
          ex_extern_failing_def ex_extern_def ex_connector_def ex_config_def)
  have hit: "clients ex_world (cacheKey_of ex_extern_failing ex_connector ex_world) = Some (ClientAt 0)"
    unfolding key by (simp add: ex_world_def)
  have tr: "install_tracer ex_extern_failing ex_connector [] = ex_connector"
    by (simp add: install_tracer_def ctx_Value_def ex_extern_failing_def ex_extern_def
          ex_connector_def Let_def)
  note inst = C9_cache_hit_cannot_fail [OF hit, of "[]"]
  from inst have no_load: "loads (snd (snd (snd (Connect ex_extern_failing ex_connector [] ex_world)))) = []"
    by blast
  from inst tr have "fst (Connect ex_extern_failing ex_connector [] ex_world)
       = (Some \<lparr>athenaAPI = ClientAt 0, connector = ex_connector\<rparr>, None)"
    by simp
  with hit no_load show ?thesis by blast
qed

text \<open>
  C10. Every call of \<open>Connect\<close>, whatever the state of the cache and the context, leaves
  the connector with its configuration unchanged and its tracer overwritten: the new
  tracer is a new default one built from the configuration, with the metrics scope and the
  logger of the context applied when present, and does not depend on the tracer the
  connector had before.
\<close>

theorem C10_Connect_overwrites_tracer_only:
  "fst (snd (Connect x c ctx w)) = c\<lparr>tracer := spec_tracer x (config c) ctx\<rparr>
   \<and> config (fst (snd (Connect x c ctx w))) = config c
   \<and> fst (snd (Connect x (c\<lparr>tracer := t\<rparr>) ctx w)) = fst (snd (Connect x c ctx w))
   \<and> (ctx_Value ctx MetricsKey = None \<and> ctx_Value ctx LoggerKey = None
        \<longrightarrow> tracer (fst (snd (Connect x c ctx w))) = NewDefaultObservability x (config c))
   \<and> (\<forall>metrics. ctx_Value ctx MetricsKey = Some (ScopeVal metrics)
        \<longrightarrow> Scope (tracer (fst (snd (Connect x c ctx w)))) = metrics)
   \<and> (\<forall>logger. ctx_Value ctx LoggerKey = Some (LoggerVal logger)
        \<longrightarrow> Logger (tracer (fst (snd (Connect x c ctx w)))) = logger)"
proof -
  have after: "fst (snd (Connect x c ctx w)) = c\<lparr>tracer := spec_tracer x (config c) ctx\<rparr>" for c
  proof (cases rule: Connect_cases [of w x c])
    case (hit a)
    then show ?thesis by (simp add: Connect_hit)
  next
    case nil_entry
    then show ?thesis by (simp add: Connect_nil_entry)
  next
    case (miss_fail cfg e)
    then show ?thesis by (simp add: Connect_miss_fail)
  next
    case (miss_ok cfg)
    then show ?thesis by (simp add: Connect_miss_ok)
  qed
  show ?thesis
    unfolding after
    by (auto simp: spec_tracer_def Let_def split: option.splits ctx_val.splits)
qed

theorem C10_witness:
  "fst (snd (Connect ex_extern (ex_connector\<lparr>tracer := \<lparr>Scope = TallyScope 9, Logger = ZapLogger 9\<rparr>\<rparr>)
        [(MetricsKey, ScopeVal (TallyScope 5))] ex_world))
     = ex_connector\<lparr>tracer := \<lparr>Scope = TallyScope 5, Logger = ZapLogger 0\<rparr>\<rparr>
   \<and> fst (snd (Connect ex_extern (ex_connector\<lparr>tracer := \<lparr>Scope = TallyScope 9, Logger = ZapLogger 9\<rparr>\<rparr>)
        [] ex_world))
     = ex_connector\<lparr>tracer := ex_tracer\<rparr>"
  using C10_Connect_overwrites_tracer_only
          [of ex_extern "ex_connector\<lparr>tracer := \<lparr>Scope = TallyScope 9, Logger = ZapLogger 9\<rparr>\<rparr>"
              "[(MetricsKey, ScopeVal (TallyScope 5))]" ex_world ex_tracer]
        C10_Connect_overwrites_tracer_only
          [of ex_extern "ex_connector\<lparr>tracer := \<lparr>Scope = TallyScope 9, Logger = ZapLogger 9\<rparr>\<rparr>"
              "[]" ex_world ex_tracer]
  by (simp add: spec_tracer_def ctx_Value_def ex_extern_def ex_tracer_def ex_connector_def Let_def)

end
